theory Spec2Isabelle
  imports Complex_Main "HOL-Library.Sublist" "HOL-Library.Multiset"
begin

section \<open>Faculty feedback rating calculator: the embedded program\<close>

text \<open>
  The repository holds six variants of one Streamlit tool (app.py, app3.py ... app7.py).
  The definitions below follow the most developed variant (app6.py; app7.py has the same
  aggregation code and a different mask), and name the older variants where they differ.

  Modelling conventions.
  \<^item> A pandas cell is a \<open>string option\<close>: \<open>None\<close> is a missing cell (NaN), \<open>Some s\<close> a text.
  \<^item> Characters are ASCII code points. \<open>str.upper\<close> and \<open>str.isspace\<close> are modelled on
    ASCII; a character outside ASCII is left unchanged and is not whitespace.
  \<^item> A pandas Timestamp is an integer number of nanoseconds since 1970-01-01T00:00:00,
    a \<open>datetime.date\<close> is a calendar date.
  \<^item> Python's float division and rounding are modelled by exact rational arithmetic.
  \<^item> A dict is an association list in insertion order.
\<close>

subsection \<open>Data model\<close>

type_synonym cell = "string option"

record row =
  timestamp :: int
  year_semester :: cell
  gender :: cell
  branch :: cell
  section_type :: cell
  ratings :: "string \<Rightarrow> cell"

record dataframe =
  columns :: "string list"
  rows :: "row list"

datatype date = Date int int int

record criteria =
  from_date :: date
  to_date :: date
  selected_year_semesters :: "cell list"
  selected_genders :: "cell list"
  selected_branches :: "cell list"
  selected_section_types :: "cell list"

datatype py_error = ZeroDivisionError | KeyError

subsection \<open>Python string primitives\<close>

definition is_space :: "char \<Rightarrow> bool" where
  \<comment> \<open>\<open>str.isspace\<close> on ASCII: TAB, LF, VT, FF, CR, FS, GS, RS, US and the blank.\<close>
  "is_space c = (let n = (of_char c :: nat) in (9 \<le> n \<and> n \<le> 13) \<or> (28 \<le> n \<and> n \<le> 32))"

definition is_lower :: "char \<Rightarrow> bool" where
  "is_lower c = (let n = (of_char c :: nat) in 97 \<le> n \<and> n \<le> 122)"

fun upper_char :: "char \<Rightarrow> char" where
  \<comment> \<open>An ASCII lower-case letter loses bit 5 (code point minus 32).\<close>
  "upper_char (Char b0 b1 b2 b3 b4 b5 b6 b7) =
     (if is_lower (Char b0 b1 b2 b3 b4 b5 b6 b7) then Char b0 b1 b2 b3 b4 False b6 b7
      else Char b0 b1 b2 b3 b4 b5 b6 b7)"

definition upper :: "string \<Rightarrow> string" where
  "upper s = map upper_char s"

definition strip :: "string \<Rightarrow> string" where
  "strip s = rev (dropWhile is_space (rev (dropWhile is_space s)))"

function split_ws :: "string \<Rightarrow> string list" where
  \<comment> \<open>\<open>str.split()\<close> without argument: the maximal runs of non-whitespace.\<close>
  "split_ws [] = []"
| "split_ws (c # cs) =
     (if is_space c then split_ws cs
      else takeWhile (\<lambda>x. \<not> is_space x) (c # cs)
             # split_ws (dropWhile (\<lambda>x. \<not> is_space x) cs))"
  by pat_completeness auto
termination
  by (relation "measure length") (simp_all add: length_dropWhile_le le_imp_less_Suc)

fun str_join :: "string \<Rightarrow> string list \<Rightarrow> string" where
  "str_join sep [] = []"
| "str_join sep [w] = w"
| "str_join sep (w # v # ws) = w @ sep @ str_join sep (v # ws)"

fun contains :: "string \<Rightarrow> string \<Rightarrow> bool" where
  \<comment> \<open>\<open>contains p s\<close> is Python's \<open>p in s\<close>.\<close>
  "contains p [] = (p = [])"
| "contains p (c # cs) = (prefix p (c # cs) \<or> contains p cs)"

fun str_find :: "string \<Rightarrow> char \<Rightarrow> int" where
  \<comment> \<open>\<open>s.find(c)\<close>: the index of the first occurrence, or -1.\<close>
  "str_find [] c = - 1"
| "str_find (x # xs) c = (if x = c then 0 else (let i = str_find xs c in if i < 0 then - 1 else i + 1))"

definition str_slice :: "string \<Rightarrow> int \<Rightarrow> int \<Rightarrow> string" where
  \<comment> \<open>\<open>s[a:b]\<close> for \<open>0 \<le> a\<close> and \<open>0 \<le> b\<close>.\<close>
  "str_slice s a b = take (nat b - nat a) (drop (nat a) s)"

subsection \<open>Rating scale\<close>

definition rating_to_score :: "(string \<times> int) list" where
  "rating_to_score =
     [(''Excellent'', 5), (''Very Good'', 4), (''Good'', 3), (''Fair'', 2), (''Poor'', 1)]"

definition convert_rating_to_score :: "cell \<Rightarrow> int option" where
  "convert_rating_to_score rating =
     (case rating of None \<Rightarrow> None | Some label \<Rightarrow> map_of rating_to_score label)"

subsection \<open>Subject key normaliser\<close>

definition normalize_subject_name :: "string option \<Rightarrow> string option" where
  "normalize_subject_name name =
     (case name of None \<Rightarrow> None
      | Some s \<Rightarrow> Some (str_join '' '' (split_ws (upper (strip s)))))"

subsection \<open>Column classification (the head of the loop body of calculate_average_scores)\<close>

definition subject_label :: "string \<Rightarrow> string option" where
  \<comment> \<open>app6.py lines 64-68 (app7.py 58-62): the slice \<open>column[start_idx:end_idx]\<close>,
      when the header passes both tests.\<close>
  "subject_label column =
     (if contains ''Subjects ['' column \<or> contains ''Subject ['' column then
        (let start_idx = str_find column CHR ''['' + 1;
             end_idx = str_find column CHR '']''
         in if start_idx > 0 \<and> end_idx > start_idx
            then Some (str_slice column start_idx end_idx) else None)
      else None)"

definition subject_key :: "string \<Rightarrow> string option" where
  \<comment> \<open>app6.py lines 68-69: the normalised name, when it is truthy (\<open>if subject_name:\<close>).\<close>
  "subject_key column =
     (case subject_label column of None \<Rightarrow> None
      | Some label \<Rightarrow>
          (case normalize_subject_name (Some label) of None \<Rightarrow> None
           | Some subject_name \<Rightarrow> if subject_name \<noteq> [] then Some subject_name else None))"

subsection \<open>Aggregation\<close>

fun dropna :: "'a option list \<Rightarrow> 'a list" where
  "dropna [] = []"
| "dropna (None # xs) = dropna xs"
| "dropna (Some x # xs) = x # dropna xs"

definition series :: "dataframe \<Rightarrow> string \<Rightarrow> cell list" where
  \<comment> \<open>\<open>df[column]\<close>\<close>
  "series df column = map (\<lambda>r. ratings r column) (rows df)"

definition valid_scores :: "dataframe \<Rightarrow> string \<Rightarrow> int list" where
  \<comment> \<open>\<open>df[column].apply(convert_rating_to_score).dropna().tolist()\<close>\<close>
  "valid_scores df column = dropna (map convert_rating_to_score (series df column))"

fun extend_scores :: "(string \<times> int list) list \<Rightarrow> string \<Rightarrow> int list \<Rightarrow> (string \<times> int list) list" where
  \<comment> \<open>\<open>if k not in acc: acc[k] = []\<close> followed by \<open>acc[k].extend(vs)\<close>\<close>
  "extend_scores [] k vs = [(k, vs)]"
| "extend_scores ((k', xs) # acc) k vs =
     (if k' = k then (k', xs @ vs) # acc else (k', xs) # extend_scores acc k vs)"

definition process_column ::
    "dataframe \<Rightarrow> (string \<times> int list) list \<Rightarrow> string \<Rightarrow> (string \<times> int list) list" where
  \<comment> \<open>One pass of the loop \<open>for column in df.columns\<close> (app6.py lines 63-76).\<close>
  "process_column df accumulated_scores column =
     (case subject_key column of None \<Rightarrow> accumulated_scores
      | Some subject_name \<Rightarrow>
          (if valid_scores df column \<noteq> []
           then extend_scores accumulated_scores subject_name (valid_scores df column)
           else accumulated_scores))"

definition accumulate :: "dataframe \<Rightarrow> (string \<times> int list) list" where
  \<comment> \<open>The dict \<open>accumulated_scores\<close> after the first loop.\<close>
  "accumulate df = foldl (process_column df) [] (columns df)"

definition mean :: "int list \<Rightarrow> rat" where
  \<comment> \<open>\<open>sum(scores) / len(scores)\<close>, only reached under \<open>if scores:\<close>\<close>
  "mean scores = of_int (sum_list scores) / of_nat (length scores)"

definition calculate_average_scores ::
    "dataframe \<Rightarrow> (string \<times> rat) list \<times> (string \<times> int list) list" where
  \<comment> \<open>The second loop (app6.py lines 78-83) fills both result dicts under \<open>if scores:\<close>.\<close>
  "calculate_average_scores df =
     (let accumulated_scores = filter (\<lambda>(subject_name, scores). scores \<noteq> []) (accumulate df)
      in (map (\<lambda>(subject_name, scores). (subject_name, mean scores)) accumulated_scores,
          accumulated_scores))"

text \<open>
  What the loop is expected to collect for a key: the valid scores of the columns with
  that key, column after column. The loop itself is \<open>accumulate\<close>; the two are
  related by the lemmas on \<open>accumulate\<close> below.
\<close>

definition pooled :: "dataframe \<Rightarrow> string list \<Rightarrow> string \<Rightarrow> int list" where
  "pooled df cols k =
     concat (map (valid_scores df) (filter (\<lambda>column. subject_key column = Some k) cols))"

subsection \<open>Row filter\<close>

definition days_from_civil :: "int \<Rightarrow> int \<Rightarrow> int \<Rightarrow> int" where
  \<comment> \<open>Days from 1970-01-01 to the given day of the proleptic Gregorian calendar.\<close>
  "days_from_civil y m d =
     (let y' = (if m \<le> 2 then y - 1 else y);
          era = y' div 400;
          yoe = y' - era * 400;
          doy = (153 * (if m > 2 then m - 3 else m + 9) + 2) div 5 + d - 1;
          doe = yoe * 365 + yoe div 4 - yoe div 100 + doy
      in era * 146097 + doe - 719468)"

definition Timedelta_seconds :: "int \<Rightarrow> int" where
  "Timedelta_seconds n = n * 1000000000"

definition Timedelta_days :: "int \<Rightarrow> int" where
  "Timedelta_days n = n * 86400 * 1000000000"

fun to_datetime :: "date \<Rightarrow> int" where
  \<comment> \<open>\<open>pd.to_datetime(date)\<close>: midnight at the start of the day.\<close>
  "to_datetime (Date y m d) = Timedelta_days (days_from_civil y m d)"

definition datetime :: "date \<Rightarrow> int \<Rightarrow> int \<Rightarrow> int \<Rightarrow> int \<Rightarrow> int" where
  \<comment> \<open>The Timestamp of a day at hh:mm:ss plus a number of nanoseconds.\<close>
  "datetime day hh mm ss ns = to_datetime day + Timedelta_seconds (hh * 3600 + mm * 60 + ss) + ns"

definition isin :: "cell \<Rightarrow> cell list \<Rightarrow> bool" where
  "isin v vals = (v \<in> set vals)"

definition fillna :: "string \<Rightarrow> cell \<Rightarrow> cell" where
  "fillna s v = (case v of None \<Rightarrow> Some s | Some x \<Rightarrow> Some x)"

definition end_of_to_date :: "criteria \<Rightarrow> int" where
  \<comment> \<open>\<open>to_date = pd.to_datetime(to_date) + pd.Timedelta(days=1) - pd.Timedelta(seconds=1)\<close>\<close>
  "end_of_to_date c = to_datetime (to_date c) + Timedelta_days 1 - Timedelta_seconds 1"

definition row_mask :: "criteria \<Rightarrow> row \<Rightarrow> bool" where
  \<comment> \<open>The mask of app.py (lines 81-88), app3.py, app4.py, app5.py and app6.py (208-215).\<close>
  "row_mask c r =
     (timestamp r \<ge> to_datetime (from_date c) \<and>
      timestamp r \<le> end_of_to_date c \<and>
      isin (year_semester r) (selected_year_semesters c) \<and>
      isin (gender r) (selected_genders c) \<and>
      isin (branch r) (selected_branches c) \<and>
      isin (section_type r) (selected_section_types c))"

definition row_mask_nan :: "criteria \<Rightarrow> row \<Rightarrow> bool" where
  \<comment> \<open>The mask of app7.py (lines 206-213): every categorical column goes through
      \<open>fillna("nan")\<close>.\<close>
  "row_mask_nan c r =
     (timestamp r \<ge> to_datetime (from_date c) \<and>
      timestamp r \<le> end_of_to_date c \<and>
      isin (fillna ''nan'' (year_semester r)) (selected_year_semesters c) \<and>
      isin (fillna ''nan'' (gender r)) (selected_genders c) \<and>
      isin (fillna ''nan'' (branch r)) (selected_branches c) \<and>
      isin (fillna ''nan'' (section_type r)) (selected_section_types c))"

definition filtered_df :: "criteria \<Rightarrow> dataframe \<Rightarrow> dataframe" where
  \<comment> \<open>\<open>df.loc[mask]\<close>\<close>
  "filtered_df c df = df\<lparr>rows := filter (row_mask c) (rows df)\<rparr>"

definition filtered_df_nan :: "criteria \<Rightarrow> dataframe \<Rightarrow> dataframe" where
  "filtered_df_nan c df = df\<lparr>rows := filter (row_mask_nan c) (rows df)\<rparr>"

subsection \<open>Per-subject statistics (main)\<close>

definition round_half_even :: "rat \<Rightarrow> int" where
  "round_half_even x =
     (let f = \<lfloor>x\<rfloor>; d = x - of_int f
      in if d < 1 / 2 then f else if d > 1 / 2 then f + 1 else if even f then f else f + 1)"

definition py_round :: "rat \<Rightarrow> nat \<Rightarrow> rat" where
  \<comment> \<open>\<open>round(x, ndigits)\<close> and \<open>Series.round(ndigits)\<close>\<close>
  "py_round x ndigits = of_int (round_half_even (x * 10 ^ ndigits)) / 10 ^ ndigits"

definition true_div :: "nat \<Rightarrow> nat \<Rightarrow> py_error + rat" where
  \<comment> \<open>\<open>a / b\<close> on two lengths; Python raises when \<open>b\<close> is 0.\<close>
  "true_div a b = (if b = 0 then Inl ZeroDivisionError else Inr (of_nat a / of_nat b))"

record subject_stats =
  Subject :: string
  Average_Score :: rat
  Number_of_Responses :: nat
  Response_Rate_pct :: rat

fun stats_rows ::
    "nat \<Rightarrow> (string \<times> int list) list \<Rightarrow> (string \<times> rat) list \<Rightarrow> py_error + subject_stats list" where
  \<comment> \<open>The loop over \<open>average_scores.items()\<close> that fills the list \<open>scores_data\<close>.\<close>
  "stats_rows total_responses subject_scores [] = Inr []"
| "stats_rows total_responses subject_scores ((subject, avg_score) # rest) =
     (case map_of subject_scores subject of
        None \<Rightarrow> Inl KeyError
      | Some scores \<Rightarrow>
          (let num_responses = length scores
           in case true_div num_responses total_responses of
                Inl e \<Rightarrow> Inl e
              | Inr rate \<Rightarrow>
                  (case stats_rows total_responses subject_scores rest of
                     Inl e \<Rightarrow> Inl e
                   | Inr later \<Rightarrow>
                       Inr (\<lparr>Subject = subject, Average_Score = py_round avg_score 2,
                             Number_of_Responses = num_responses,
                             Response_Rate_pct = py_round (rate * 100) 1\<rparr> # later))))"

definition scores_data :: "dataframe \<Rightarrow> py_error + subject_stats list" where
  \<comment> \<open>main, app6.py lines 219-234 (app5.py 147-162), on the filtered table.\<close>
  "scores_data df =
     (let (average_scores, subject_scores) = calculate_average_scores df;
          total_responses = length (rows df)
      in stats_rows total_responses subject_scores average_scores)"

subsection \<open>Score distribution\<close>





subsection \<open>Example tables and criteria\<close>

definition blank_row :: row where
  "blank_row = \<lparr>timestamp = 0, year_semester = None, gender = None, branch = None,
                section_type = None, ratings = (\<lambda>h. None)\<rparr>"

definition df_dbms :: dataframe where
  "df_dbms =
     \<lparr>columns = [''Subject [DBMS]'', ''Subjects [ dbms ]'', ''Name''],
      rows = [blank_row\<lparr>ratings := [''Subject [DBMS]'' \<mapsto> ''Excellent'',
                                       ''Subjects [ dbms ]'' \<mapsto> ''Good'',
                                       ''Name'' \<mapsto> ''Asha'']\<rparr>,
              blank_row\<lparr>ratings := [''Subject [DBMS]'' \<mapsto> ''Poor'',
                                       ''Name'' \<mapsto> ''Good'']\<rparr>]\<rparr>"


definition df_four :: dataframe where
  \<comment> \<open>Four respondents and one subject column; the third respondent left it empty.\<close>
  "df_four =
     \<lparr>columns = [''Timestamp'', ''Gender'', ''Subject [DBMS]''],
      rows = [blank_row\<lparr>ratings := [''Subject [DBMS]'' \<mapsto> ''Excellent'']\<rparr>,
              blank_row\<lparr>ratings := [''Subject [DBMS]'' \<mapsto> ''Good'']\<rparr>,
              blank_row,
              blank_row\<lparr>ratings := [''Subject [DBMS]'' \<mapsto> ''Poor'']\<rparr>]\<rparr>"

definition crit_day :: criteria where
  \<comment> \<open>From 2024-01-01 to 2024-01-01, the usual two genders, one value in the other sets.\<close>
  "crit_day =
     \<lparr>from_date = Date 2024 1 1, to_date = Date 2024 1 1,
      selected_year_semesters = [Some ''II-I''],
      selected_genders = [Some ''Male'', Some ''Female''],
      selected_branches = [Some ''CSE''],
      selected_section_types = [Some ''Regular'']\<rparr>"

definition row_at :: "int \<Rightarrow> row" where
  \<comment> \<open>A row that passes every categorical filter of \<open>crit_day\<close>, at the given time.\<close>
  "row_at t = \<lparr>timestamp = t, year_semester = Some ''II-I'', gender = Some ''Female'',
               branch = Some ''CSE'', section_type = Some ''Regular'', ratings = (\<lambda>h. None)\<rparr>"

section \<open>Verified properties\<close>

subsection \<open>Rating scale\<close>

lemma convert_Some_iff:
  "convert_rating_to_score rating = Some n \<longleftrightarrow>
     (rating = Some ''Excellent'' \<and> n = 5) \<or> (rating = Some ''Very Good'' \<and> n = 4) \<or>
     (rating = Some ''Good'' \<and> n = 3) \<or> (rating = Some ''Fair'' \<and> n = 2) \<or>
     (rating = Some ''Poor'' \<and> n = 1)"
  by (cases rating) (auto simp: convert_rating_to_score_def rating_to_score_def)

lemma dropna_filter: "dropna xs = map the (filter (\<lambda>x. x \<noteq> None) xs)"
  by (induction xs rule: dropna.induct) auto

lemma set_dropna: "set (dropna xs) = {x. Some x \<in> set xs}"
  by (induction xs rule: dropna.induct) auto


lemma valid_scores_range: "x \<in> set (valid_scores df column) \<Longrightarrow> 1 \<le> x \<and> x \<le> 5"
proof -
  assume "x \<in> set (valid_scores df column)"
  then obtain c where "convert_rating_to_score c = Some x"
    by (auto simp: valid_scores_def set_dropna)
  then show ?thesis
    by (auto simp: convert_Some_iff)
qed

text \<open>
  C8: \<open>convert_rating_to_score\<close> maps exactly the five canonical labels Excellent,
  Very Good, Good, Fair and Poor to 5, 4, 3, 2 and 1, and every other cell (empty text,
  unrecognised text, missing) to \<open>None\<close>. A cell without a score is left out of the
  list of valid scores of its column: the list holds the scores of the cells with a
  canonical label, in row order, so such a cell is neither turned into 0 nor counted in
  the length that divides the sum.
\<close>

theorem rating_scale_exact:
  "(convert_rating_to_score rating = Some n \<longleftrightarrow>
      (rating = Some ''Excellent'' \<and> n = 5) \<or> (rating = Some ''Very Good'' \<and> n = 4) \<or>
      (rating = Some ''Good'' \<and> n = 3) \<or> (rating = Some ''Fair'' \<and> n = 2) \<or>
      (rating = Some ''Poor'' \<and> n = 1)) \<and>
   (convert_rating_to_score rating = None \<longleftrightarrow>
      rating \<notin> {Some ''Excellent'', Some ''Very Good'', Some ''Good'', Some ''Fair'', Some ''Poor''}) \<and>
   valid_scores df column =
     map the (filter (\<lambda>s. s \<noteq> None) (map convert_rating_to_score (series df column))) \<and>
   length (valid_scores df column) =
     length (filter (\<lambda>c. c \<in> {Some ''Excellent'', Some ''Very Good'', Some ''Good'',
                                  Some ''Fair'', Some ''Poor''}) (series df column)) \<and>
   0 \<notin> set (valid_scores df column)"
proof -
  have none: "convert_rating_to_score c = None \<longleftrightarrow>
      c \<notin> {Some ''Excellent'', Some ''Very Good'', Some ''Good'', Some ''Fair'', Some ''Poor''}" for c
    using convert_Some_iff[of c] by (cases "convert_rating_to_score c") auto
  have "length (valid_scores df column) =
      length (filter (\<lambda>c. convert_rating_to_score c \<noteq> None) (series df column))"
    by (simp add: valid_scores_def dropna_filter filter_map comp_def)
  then have len: "length (valid_scores df column) =
     length (filter (\<lambda>c. c \<in> {Some ''Excellent'', Some ''Very Good'', Some ''Good'',
                                  Some ''Fair'', Some ''Poor''}) (series df column))"
    by (simp only: none not_not)
  have zero: "0 \<notin> set (valid_scores df column)"
    using valid_scores_range[of 0 df column] by auto
  show ?thesis
    using convert_Some_iff[of rating n] none[of rating] len zero
    by (simp add: valid_scores_def dropna_filter)
qed

theorem rating_scale_exact_witness:
  "convert_rating_to_score (Some ''Excellent'') = Some 5 \<and>
   convert_rating_to_score (Some ''Poor'') = Some 1 \<and>
   convert_rating_to_score (Some ''N/A'') = None \<and>
   convert_rating_to_score (Some []) = None \<and>
   convert_rating_to_score None = None"
  using rating_scale_exact[of "Some ''Excellent''" 5]
        rating_scale_exact[of "Some ''Poor''" 1]
        rating_scale_exact[of "Some ''N/A''"]
        rating_scale_exact[of "Some []"]
        rating_scale_exact[of None]
  by simp

subsection \<open>Subject key normaliser\<close>



lemma split_ws_space: "is_space c \<Longrightarrow> split_ws (c # cs) = split_ws cs"
  by simp



















subsection \<open>Column classification\<close>

lemma contains_iff: "contains p s \<longleftrightarrow> (\<exists>a b. s = a @ p @ b)"
proof (induction s)
  case Nil
  then show ?case by auto
next
  case (Cons c cs)
  show ?case
  proof
    assume "contains p (c # cs)"
    then consider "prefix p (c # cs)" | "contains p cs" by auto
    then show "\<exists>a b. c # cs = a @ p @ b"
    proof cases
      case 1
      then obtain b where "c # cs = p @ b" by (auto simp: prefix_def)
      then have "c # cs = [] @ p @ b" by simp
      then show ?thesis by blast
    next
      case 2
      with Cons obtain a b where "cs = a @ p @ b" by blast
      then have "c # cs = (c # a) @ p @ b" by simp
      then show ?thesis by blast
    qed
  next
    assume "\<exists>a b. c # cs = a @ p @ b"
    then obtain a b where ab: "c # cs = a @ p @ b" by blast
    show "contains p (c # cs)"
    proof (cases a)
      case Nil
      with ab have "prefix p (c # cs)" by (simp add: prefix_def)
      then show ?thesis by simp
    next
      case (Cons x xs)
      with ab have "cs = xs @ p @ b" by simp
      with Cons.IH have "contains p cs" by blast
      then show ?thesis by simp
    qed
  qed
qed

lemma str_find_ge: "- 1 \<le> str_find s c"
  by (induction s) (auto simp: Let_def)

lemma str_find_absent: "c \<notin> set s \<Longrightarrow> str_find s c = - 1"
  by (induction s) (auto simp: Let_def)

lemma str_find_first: "c \<notin> set a \<Longrightarrow> str_find (a @ c # b) c = int (length a)"
  by (induction a) (auto simp: Let_def)

lemma str_find_present:
  assumes "0 \<le> str_find s c"
  shows "\<exists>a b. s = a @ c # b \<and> c \<notin> set a \<and> str_find s c = int (length a)"
proof -
  have "c \<in> set s" using assms str_find_absent[of c s] by force
  then obtain a b where "s = a @ c # b" "c \<notin> set a" by (meson split_list_first)
  then show ?thesis using str_find_first by blast
qed

lemma str_slice_middle:
  "str_slice (a @ x # l @ b) (int (length a) + 1) (int (length a) + 1 + int (length l)) = l"
  by (simp add: str_slice_def nat_add_distrib)

lemma subject_label_iff:
  "subject_label h = Some l \<longleftrightarrow>
     (contains ''Subjects ['' h \<or> contains ''Subject ['' h) \<and>
     (\<exists>a b. h = a @ CHR ''['' # l @ CHR '']'' # b \<and> CHR ''['' \<notin> set a \<and> CHR '']'' \<notin> set a
            \<and> CHR '']'' \<notin> set l \<and> l \<noteq> [])"
  (is "?L \<longleftrightarrow> ?C \<and> ?R")
proof
  assume L: ?L
  then have C: ?C by (auto simp: subject_label_def split: if_splits)
  from L C have s: "str_find h CHR ''['' + 1 > 0" and e: "str_find h CHR '']'' > str_find h CHR ''['' + 1"
     and l: "l = str_slice h (str_find h CHR ''['' + 1) (str_find h CHR '']'')"
    by (auto simp: subject_label_def Let_def split: if_splits)
  from s obtain a r where a: "h = a @ CHR ''['' # r" "CHR ''['' \<notin> set a" "str_find h CHR ''['' = int (length a)"
    using str_find_present[of h "CHR ''[''"] by auto
  from e s obtain a' b where a': "h = a' @ CHR '']'' # b" "CHR '']'' \<notin> set a'" "str_find h CHR '']'' = int (length a')"
    using str_find_present[of h "CHR '']''"] by auto
  from e a a' have len: "length a' > length a + 1" by simp
  from a(1) a'(1) have "a @ CHR ''['' # r = a' @ CHR '']'' # b" by simp
  with len obtain m where m: "a' = a @ CHR ''['' # m" "r = m @ CHR '']'' # b"
    by (auto simp: append_eq_append_conv2 append_eq_Cons_conv Cons_eq_append_conv)
  from len m have "m \<noteq> []" by auto
  moreover have "l = m"
    unfolding l a(3) a'(3) using str_slice_middle[of a "CHR ''[''" m "CHR '']'' # b"] a(1) m
    by (simp add: add.commute add.left_commute)
  ultimately have ?R using a m a'(2) by auto
  with C show "?C \<and> ?R" ..
next
  assume "?C \<and> ?R"
  then obtain a b where C: ?C and h: "h = a @ CHR ''['' # l @ CHR '']'' # b"
    and n: "CHR ''['' \<notin> set a" "CHR '']'' \<notin> set a" "CHR '']'' \<notin> set l" "l \<noteq> []" by blast
  have f1: "str_find h CHR ''['' = int (length a)" unfolding h using n(1) by (rule str_find_first)
  have "str_find ((a @ CHR ''['' # l) @ CHR '']'' # b) CHR '']'' = int (length (a @ CHR ''['' # l))"
    by (rule str_find_first) (use n in auto)
  then have f2: "str_find h CHR '']'' = int (length a) + 1 + int (length l)" unfolding h by simp
  have "str_slice h (int (length a) + 1) (int (length a) + 1 + int (length l)) = l"
    unfolding h by (rule str_slice_middle)
  then show ?L using C n(4) by (simp add: subject_label_def f1 f2)
qed

lemma subject_key_iff:
  "subject_key h = Some k \<longleftrightarrow>
     (\<exists>l. subject_label h = Some l \<and> normalize_subject_name (Some l) = Some k \<and> k \<noteq> [])"
  by (auto simp: subject_key_def split: option.splits if_splits)

text \<open>
  C2 (as amended): a header is a rating column exactly when it contains "Subjects [" or
  "Subject [", its first "]" comes after its first "[" with at least one character
  between the two, and the text between them normalises to a non-empty key. The label
  taken from such a header is exactly the text strictly between the first "[" and the
  first "]", whatever bracket-free text stands before the "[" and whatever text follows
  the "]".
\<close>

theorem rating_column_iff:
  "(subject_label h = Some l \<longleftrightarrow>
      (contains ''Subjects ['' h \<or> contains ''Subject ['' h) \<and>
      (\<exists>a b. h = a @ CHR ''['' # l @ CHR '']'' # b \<and> CHR ''['' \<notin> set a \<and> CHR '']'' \<notin> set a
             \<and> CHR '']'' \<notin> set l \<and> l \<noteq> [])) \<and>
   (subject_key h = Some k \<longleftrightarrow>
      (contains ''Subjects ['' h \<or> contains ''Subject ['' h) \<and>
      (\<exists>a m b. h = a @ CHR ''['' # m @ CHR '']'' # b \<and> CHR ''['' \<notin> set a \<and> CHR '']'' \<notin> set a
             \<and> CHR '']'' \<notin> set m \<and> m \<noteq> []
             \<and> normalize_subject_name (Some m) = Some k \<and> k \<noteq> []))"
proof -
  have "subject_key h = Some k \<longleftrightarrow>
      (contains ''Subjects ['' h \<or> contains ''Subject ['' h) \<and>
      (\<exists>a m b. h = a @ CHR ''['' # m @ CHR '']'' # b \<and> CHR ''['' \<notin> set a \<and> CHR '']'' \<notin> set a
             \<and> CHR '']'' \<notin> set m \<and> m \<noteq> []
             \<and> normalize_subject_name (Some m) = Some k \<and> k \<noteq> [])"
    unfolding subject_key_iff subject_label_iff by blast
  then show ?thesis
    using subject_label_iff[of h l] by blast
qed

theorem rating_column_iff_witness:
  "(contains ''Subjects ['' ''Rate Subject [ a  b ] now'' \<or>
    contains ''Subject ['' ''Rate Subject [ a  b ] now'') \<and>
   (\<exists>a b. ''Rate Subject [ a  b ] now'' = a @ CHR ''['' # '' a  b '' @ CHR '']'' # b
      \<and> CHR ''['' \<notin> set a \<and> CHR '']'' \<notin> set a \<and> CHR '']'' \<notin> set '' a  b '' \<and> '' a  b '' \<noteq> []) \<and>
   subject_key ''Rate Subject [ a  b ] now'' = Some ''A B''"
proof -
  have l: "subject_label ''Rate Subject [ a  b ] now'' = Some '' a  b ''"
    by (simp add: subject_label_def str_slice_def)
  have k: "subject_key ''Rate Subject [ a  b ] now'' = Some ''A B''"
    by (simp add: subject_key_def l normalize_subject_name_def strip_def upper_def
        is_space_def is_lower_def)
  show ?thesis
    using l k rating_column_iff[of "''Rate Subject [ a  b ] now''" "'' a  b ''" "''A B''"]
    by blast
qed

text \<open>
  The claim as stated fails: these headers contain "Subject [" and a "]" and are not
  rating columns.
\<close>

theorem rating_column_counterexample:
  "contains ''Subject ['' ''Subject []'' \<and> CHR '']'' \<in> set ''Subject []'' \<and>
   subject_key ''Subject []'' = None \<and>
   contains ''Subject ['' ''Subject [ ]'' \<and> CHR '']'' \<in> set ''Subject [ ]'' \<and>
   subject_key ''Subject [ ]'' = None \<and>
   contains ''Subject ['' ''1] Subject [DBMS]'' \<and> CHR '']'' \<in> set ''1] Subject [DBMS]'' \<and>
   subject_key ''1] Subject [DBMS]'' = None"
  by (simp add: subject_key_def subject_label_def str_slice_def normalize_subject_name_def
      strip_def upper_def is_space_def is_lower_def)

lemma subject_key_examples:
  "subject_key ''Subject [DBMS]'' = Some ''DBMS''"
  "subject_key ''Subjects [ dbms ]'' = Some ''DBMS''"
  "subject_key ''Name'' = None"
  by (simp_all add: subject_key_def subject_label_def str_slice_def normalize_subject_name_def
      strip_def upper_def is_space_def is_lower_def)

text \<open>
  C3: with the headers "Subject [DBMS]", "Subjects [ dbms ]" and "Name", the first two
  columns have the one key "DBMS" and "Name" has none; for every table with these headers
  the result holds at most the subject "DBMS", whose score list is the valid scores of the
  first column followed by those of the second.
\<close>

theorem classify_groups_dbms:
  "map subject_key [''Subject [DBMS]'', ''Subjects [ dbms ]'', ''Name'']
     = [Some ''DBMS'', Some ''DBMS'', None] \<and>
   (columns df = [''Subject [DBMS]'', ''Subjects [ dbms ]'', ''Name''] \<longrightarrow>
      snd (calculate_average_scores df) =
        (if valid_scores df ''Subject [DBMS]'' @ valid_scores df ''Subjects [ dbms ]'' = [] then []
         else [(''DBMS'', valid_scores df ''Subject [DBMS]'' @ valid_scores df ''Subjects [ dbms ]'')]))"
proof -
  have "snd (calculate_average_scores df) =
        (if valid_scores df ''Subject [DBMS]'' @ valid_scores df ''Subjects [ dbms ]'' = [] then []
         else [(''DBMS'', valid_scores df ''Subject [DBMS]'' @ valid_scores df ''Subjects [ dbms ]'')])"
    if "columns df = [''Subject [DBMS]'', ''Subjects [ dbms ]'', ''Name'']"
    unfolding calculate_average_scores_def accumulate_def that
    by (simp add: process_column_def subject_key_examples Let_def)
  then show ?thesis
    by (simp add: subject_key_examples)
qed

theorem classify_groups_dbms_witness:
  "columns df_dbms = [''Subject [DBMS]'', ''Subjects [ dbms ]'', ''Name''] \<and>
   snd (calculate_average_scores df_dbms) = [(''DBMS'', [5, 1, 3])]"
proof -
  have c: "columns df_dbms = [''Subject [DBMS]'', ''Subjects [ dbms ]'', ''Name'']"
    by (simp add: df_dbms_def)
  have v1: "valid_scores df_dbms ''Subject [DBMS]'' = [5, 1]"
    by (simp add: df_dbms_def blank_row_def valid_scores_def series_def
        convert_rating_to_score_def rating_to_score_def)
  have v2: "valid_scores df_dbms ''Subjects [ dbms ]'' = [3]"
    by (simp add: df_dbms_def blank_row_def valid_scores_def series_def
        convert_rating_to_score_def rating_to_score_def)
  show ?thesis
    using c classify_groups_dbms[of df_dbms] by (simp add: v1 v2)
qed

subsection \<open>Aggregation\<close>

lemma pooled_Nil: "pooled df [] k = []"
  by (simp add: pooled_def)

lemma pooled_Cons:
  "pooled df (c # cs) k =
     (if subject_key c = Some k then valid_scores df c @ pooled df cs k else pooled df cs k)"
  by (simp add: pooled_def)

lemma map_of_extend_scores:
  "map_of (extend_scores acc k vs) k' =
     (if k' = k then Some ((case map_of acc k of None \<Rightarrow> [] | Some xs \<Rightarrow> xs) @ vs)
      else map_of acc k')"
  by (induction acc k vs rule: extend_scores.induct) auto

lemma keys_extend_scores:
  "map fst (extend_scores acc k vs) =
     (if k \<in> set (map fst acc) then map fst acc else map fst acc @ [k])"
  by (induction acc k vs rule: extend_scores.induct) auto

lemma distinct_extend_scores:
  "distinct (map fst acc) \<Longrightarrow> distinct (map fst (extend_scores acc k vs))"
  by (simp add: keys_extend_scores)

lemma distinct_process_column:
  "distinct (map fst acc) \<Longrightarrow> distinct (map fst (process_column df acc c))"
  by (simp add: process_column_def distinct_extend_scores split: option.splits)

lemma distinct_foldl_process:
  "distinct (map fst acc) \<Longrightarrow> distinct (map fst (foldl (process_column df) acc cols))"
  by (induction cols arbitrary: acc) (simp_all add: distinct_process_column)

lemma map_of_process_column:
  "map_of (process_column df acc c) k =
     (if subject_key c = Some k \<and> valid_scores df c \<noteq> []
      then Some ((case map_of acc k of None \<Rightarrow> [] | Some xs \<Rightarrow> xs) @ valid_scores df c)
      else map_of acc k)"
  by (auto simp: process_column_def map_of_extend_scores split: option.splits)

lemma map_of_foldl_process:
  "map_of (foldl (process_column df) acc cols) k =
     (case map_of acc k of
        None \<Rightarrow> if pooled df cols k = [] then None else Some (pooled df cols k)
      | Some xs \<Rightarrow> Some (xs @ pooled df cols k))"
proof (induction cols arbitrary: acc)
  case Nil
  then show ?case by (simp add: pooled_Nil split: option.splits)
next
  case (Cons c cs)
  show ?case
    by (simp add: Cons.IH map_of_process_column pooled_Cons split: option.splits)
qed

lemma distinct_accumulate: "distinct (map fst (accumulate df))"
  unfolding accumulate_def by (rule distinct_foldl_process) simp

lemma map_of_accumulate:
  "map_of (accumulate df) k =
     (if pooled df (columns df) k = [] then None else Some (pooled df (columns df) k))"
  unfolding accumulate_def by (simp add: map_of_foldl_process)

lemma accumulate_mem:
  "(k, scores) \<in> set (accumulate df) \<longleftrightarrow> scores = pooled df (columns df) k \<and> scores \<noteq> []"
proof -
  have "(k, scores) \<in> set (accumulate df) \<longleftrightarrow> map_of (accumulate df) k = Some scores"
    using distinct_accumulate by (simp add: map_of_eq_Some_iff)
  then show ?thesis
    by (auto simp: map_of_accumulate)
qed

lemma subject_scores_eq: "snd (calculate_average_scores df) = accumulate df"
proof -
  have "\<forall>p\<in>set (accumulate df). (\<lambda>(subject_name, scores). scores \<noteq> []) p"
    using accumulate_mem by auto
  then have "filter (\<lambda>(subject_name, scores). scores \<noteq> []) (accumulate df) = accumulate df"
    by (simp only: filter_True)
  then show ?thesis
    by (simp add: calculate_average_scores_def Let_def)
qed

lemma average_scores_eq:
  "fst (calculate_average_scores df) =
     map (\<lambda>(subject_name, scores). (subject_name, mean scores)) (snd (calculate_average_scores df))"
  by (simp add: calculate_average_scores_def Let_def)

lemma pooled_range: "x \<in> set (pooled df cols k) \<Longrightarrow> 1 \<le> x \<and> x \<le> 5"
  using valid_scores_range by (auto simp: pooled_def)

lemma sum_list_bounds:
  "\<forall>x\<in>set xs. 1 \<le> x \<and> x \<le> (5::int) \<Longrightarrow> int (length xs) \<le> sum_list xs \<and> sum_list xs \<le> 5 * int (length xs)"
  by (induction xs) auto

lemma mean_bounds:
  assumes "xs \<noteq> []" "\<forall>x\<in>set xs. 1 \<le> x \<and> x \<le> (5::int)"
  shows "1 \<le> mean xs \<and> mean xs \<le> 5"
proof -
  have n: "(0::rat) < of_nat (length xs)" using assms(1) by simp
  from sum_list_bounds[OF assms(2)]
  have "(of_nat (length xs) :: rat) \<le> of_int (sum_list xs)"
    and "(of_int (sum_list xs) :: rat) \<le> 5 * of_nat (length xs)"
    by (metis of_int_le_iff of_int_of_nat_eq, metis of_int_le_iff of_int_mult of_int_numeral of_int_of_nat_eq)
  with n show ?thesis
    by (simp add: mean_def pos_le_divide_eq pos_divide_le_eq)
qed



lemma set_dropna_map: "k \<in> set (dropna (map f xs)) \<longleftrightarrow> Some k \<in> set (map f xs)"
  by (simp add: set_dropna)



lemma pooled_empty_iff:
  "pooled df cols k = [] \<longleftrightarrow>
     (\<forall>c\<in>set cols. subject_key c = Some k \<longrightarrow>
        (\<forall>r\<in>set (rows df). convert_rating_to_score (ratings r c) = None))"
proof -
  have v: "valid_scores df c = [] \<longleftrightarrow> (\<forall>r\<in>set (rows df). convert_rating_to_score (ratings r c) = None)" for c
    by (auto simp: valid_scores_def series_def dropna_filter filter_empty_conv)
  show ?thesis
    by (auto simp: pooled_def v)
qed

lemma df_four_result:
  "calculate_average_scores df_four = ([(''DBMS'', 3)], [(''DBMS'', [5, 3, 1])])"
  by (simp add: df_four_def blank_row_def calculate_average_scores_def accumulate_def
      process_column_def subject_key_def subject_label_def normalize_subject_name_def
      upper_def strip_def is_space_def is_lower_def str_slice_def valid_scores_def series_def
      convert_rating_to_score_def rating_to_score_def mean_def)


lemma keys_absent_iff:
  "k \<notin> fst ` set (snd (calculate_average_scores df)) \<longleftrightarrow> pooled df (columns df) k = []"
proof -
  have "k \<in> fst ` set (accumulate df) \<longleftrightarrow> pooled df (columns df) k \<noteq> []"
    using accumulate_mem[of k _ df] by force
  then show ?thesis
    by (simp add: subject_scores_eq)
qed

text \<open>
  C6: each subject's mean is the sum of its surviving scores divided by their number;
  the surviving scores of a subject are the scores of its cells, over all its columns and
  all rows, that have a score; a subject is absent from both result mappings exactly when
  every cell of every one of its columns has no score. For four rows with the ratings
  Excellent, Good, missing, Poor in one subject column the result is mean 3, count 3,
  response rate 3/4 (shown as 75.0 per cent).
\<close>

theorem aggregate_mean_and_omission:
  "fst (calculate_average_scores df) =
     map (\<lambda>(k, scores). (k, of_int (sum_list scores) / of_nat (length scores)))
         (snd (calculate_average_scores df)) \<and>
   map_of (snd (calculate_average_scores df)) k =
     (if pooled df (columns df) k = [] then None else Some (pooled df (columns df) k)) \<and>
   (k \<notin> fst ` set (snd (calculate_average_scores df)) \<longleftrightarrow>
      (\<forall>c\<in>set (columns df). subject_key c = Some k \<longrightarrow>
         (\<forall>r\<in>set (rows df). convert_rating_to_score (ratings r c) = None))) \<and>
   (k \<notin> fst ` set (fst (calculate_average_scores df)) \<longleftrightarrow>
      (\<forall>c\<in>set (columns df). subject_key c = Some k \<longrightarrow>
         (\<forall>r\<in>set (rows df). convert_rating_to_score (ratings r c) = None))) \<and>
   calculate_average_scores df_four = ([(''DBMS'', 3)], [(''DBMS'', [5, 3, 1])]) \<and>
   length (rows df_four) = 4 \<and>
   true_div 3 4 = Inr (3 / 4) \<and>
   scores_data df_four =
     Inr [\<lparr>Subject = ''DBMS'', Average_Score = 3, Number_of_Responses = 3,
           Response_Rate_pct = 75\<rparr>]"
proof -
  have means: "fst (calculate_average_scores df) =
     map (\<lambda>(k, scores). (k, of_int (sum_list scores) / of_nat (length scores)))
         (snd (calculate_average_scores df))"
    using average_scores_eq[of df] by (simp add: mean_def[abs_def])
  have lookup: "map_of (snd (calculate_average_scores df)) k =
     (if pooled df (columns df) k = [] then None else Some (pooled df (columns df) k))"
    by (simp add: subject_scores_eq map_of_accumulate)
  have absent: "k \<notin> fst ` set (snd (calculate_average_scores df)) \<longleftrightarrow>
      (\<forall>c\<in>set (columns df). subject_key c = Some k \<longrightarrow>
         (\<forall>r\<in>set (rows df). convert_rating_to_score (ratings r c) = None))"
    by (simp only: keys_absent_iff pooled_empty_iff)
  have "fst ` set (fst (calculate_average_scores df)) = fst ` set (snd (calculate_average_scores df))"
    by (subst average_scores_eq) force
  with absent have absent': "k \<notin> fst ` set (fst (calculate_average_scores df)) \<longleftrightarrow>
      (\<forall>c\<in>set (columns df). subject_key c = Some k \<longrightarrow>
         (\<forall>r\<in>set (rows df). convert_rating_to_score (ratings r c) = None))"
    by simp
  have n: "length (rows df_four) = 4"
    by (simp add: df_four_def)
  have d: "true_div 3 4 = Inr (3 / 4)"
    by (simp add: true_div_def)
  have s: "scores_data df_four =
     Inr [\<lparr>Subject = ''DBMS'', Average_Score = 3, Number_of_Responses = 3,
           Response_Rate_pct = 75\<rparr>]"
    by (simp add: scores_data_def df_four_result n true_div_def py_round_def round_half_even_def)
  show ?thesis
    using means lookup absent absent' df_four_result n d s by blast
qed

theorem aggregate_mean_and_omission_witness:
  "''DBMS'' \<in> fst ` set (snd (calculate_average_scores df_four)) \<and>
   \<not> (\<forall>c\<in>set (columns df_four). subject_key c = Some ''DBMS'' \<longrightarrow>
         (\<forall>r\<in>set (rows df_four). convert_rating_to_score (ratings r c) = None)) \<and>
   map_of (snd (calculate_average_scores df_four)) ''DBMS'' = Some [5, 3, 1] \<and>
   pooled df_four (columns df_four) ''DBMS'' = [5, 3, 1] \<and>
   ''GENDER'' \<notin> fst ` set (snd (calculate_average_scores df_four)) \<and>
   map_of (snd (calculate_average_scores df_four)) ''GENDER'' = None \<and>
   pooled df_four (columns df_four) ''GENDER'' = []"
proof -
  have k: "''DBMS'' \<in> fst ` set (snd (calculate_average_scores df_four))"
    "''GENDER'' \<notin> fst ` set (snd (calculate_average_scores df_four))"
    "map_of (snd (calculate_average_scores df_four)) ''DBMS'' = Some [5, 3, 1]"
    by (simp_all add: df_four_result)
  from k aggregate_mean_and_omission[of df_four "''DBMS''"]
    aggregate_mean_and_omission[of df_four "''GENDER''"]
  show ?thesis
    by (auto split: if_splits)
qed

text \<open>
  C10: the two mappings returned by \<open>calculate_average_scores\<close> have the same keys in
  the same order, without repetition; each average is the sum of the key's score list
  divided by its length; each score list is non-empty and holds only the integers 1 to 5;
  so every average lies between 1 and 5.
\<close>

theorem averages_match_scores:
  "map fst (fst (calculate_average_scores df)) = map fst (snd (calculate_average_scores df)) \<and>
   distinct (map fst (snd (calculate_average_scores df))) \<and>
   fst (calculate_average_scores df) =
     map (\<lambda>(k, scores). (k, of_int (sum_list scores) / of_nat (length scores)))
         (snd (calculate_average_scores df)) \<and>
   (\<forall>(k, scores)\<in>set (snd (calculate_average_scores df)). scores \<noteq> [] \<and> set scores \<subseteq> {1..5}) \<and>
   (\<forall>(k, avg)\<in>set (fst (calculate_average_scores df)). 1 \<le> avg \<and> avg \<le> 5)"
proof -
  have keys: "map fst (fst (calculate_average_scores df)) = map fst (snd (calculate_average_scores df))"
    by (subst average_scores_eq) (simp add: comp_def case_prod_beta)
  have dist: "distinct (map fst (snd (calculate_average_scores df)))"
    by (simp add: subject_scores_eq distinct_accumulate)
  have means: "fst (calculate_average_scores df) =
     map (\<lambda>(k, scores). (k, of_int (sum_list scores) / of_nat (length scores)))
         (snd (calculate_average_scores df))"
    using average_scores_eq[of df] by (simp add: mean_def[abs_def])
  have lists: "scores \<noteq> [] \<and> set scores \<subseteq> {1..5}"
    if "(k, scores) \<in> set (snd (calculate_average_scores df))" for k scores
  proof -
    from that have "scores = pooled df (columns df) k" "scores \<noteq> []"
      by (auto simp: subject_scores_eq accumulate_mem)
    then show ?thesis
      using pooled_range[of _ df "columns df" k] by auto
  qed
  have avgs: "1 \<le> avg \<and> avg \<le> 5"
    if "(k, avg) \<in> set (fst (calculate_average_scores df))" for k avg
  proof -
    from that obtain scores where s: "(k, scores) \<in> set (snd (calculate_average_scores df))"
      and a: "avg = mean scores"
      by (subst (asm) average_scores_eq) auto
    from lists[OF s] have "scores \<noteq> []" "\<forall>x\<in>set scores. 1 \<le> x \<and> x \<le> 5"
      by auto
    then show ?thesis
      unfolding a by (rule mean_bounds)
  qed
  show ?thesis
    using keys dist means lists avgs by blast
qed

theorem averages_match_scores_witness:
  "map fst (fst (calculate_average_scores df_dbms)) = [''DBMS''] \<and>
   (''DBMS'', [5, 1, 3]) \<in> set (snd (calculate_average_scores df_dbms)) \<and>
   set [5, 1, 3] \<subseteq> {1..5::int} \<and>
   (''DBMS'', 3) \<in> set (fst (calculate_average_scores df_dbms)) \<and>
   (1::rat) \<le> 3 \<and> (3::rat) \<le> 5"
proof -
  have r: "calculate_average_scores df_dbms = ([(''DBMS'', 3)], [(''DBMS'', [5, 1, 3])])"
    by (simp add: df_dbms_def blank_row_def calculate_average_scores_def accumulate_def
      process_column_def subject_key_def subject_label_def normalize_subject_name_def
      upper_def strip_def is_space_def is_lower_def str_slice_def valid_scores_def series_def
      convert_rating_to_score_def rating_to_score_def mean_def)
  show ?thesis
    using averages_match_scores[of df_dbms] by (simp add: r)
qed




subsection \<open>Row filter\<close>

lemma filtered_df_exact:
  "rows (filtered_df c df) =
     filter (\<lambda>r. to_datetime (from_date c) \<le> timestamp r \<and>
                 timestamp r \<le> to_datetime (to_date c) + Timedelta_days 1 - Timedelta_seconds 1 \<and>
                 year_semester r \<in> set (selected_year_semesters c) \<and>
                 gender r \<in> set (selected_genders c) \<and>
                 branch r \<in> set (selected_branches c) \<and>
                 section_type r \<in> set (selected_section_types c)) (rows df)"
  by (simp add: filtered_df_def row_mask_def[abs_def] end_of_to_date_def isin_def)

lemma filtered_df_order: "subseq (rows (filtered_df c df)) (rows df)"
  by (simp add: filtered_df_def)

lemma day_2024_01_01: "days_from_civil 2024 1 1 = 19723"
  by (simp add: days_from_civil_def)

lemma day_2024_01_02: "days_from_civil 2024 1 2 = 19724"
  by (simp add: days_from_civil_def)

text \<open>
  C5: the filter keeps, in their order, the rows whose timestamp lies between the start of
  the from-day and the upper bound and whose categorical values are all accepted. The
  upper bound is 23:59:59 of the to-day, one second before the day ends: with from and to
  both 2024-01-01, the row of 23:59:00 is kept and the row of 00:00:01 the next day is
  dropped, as the claim says, and the row of 23:59:59.5 on 2024-01-01, a time of that
  day, is dropped as well.
\<close>

theorem to_date_misses_last_second:
  "to_datetime (Date 2024 1 1) \<le> datetime (Date 2024 1 1) 23 59 59 500000000 \<and>
   datetime (Date 2024 1 1) 23 59 59 500000000 < to_datetime (Date 2024 1 2) \<and>
   rows (filtered_df crit_day
           \<lparr>columns = [],
            rows = [row_at (datetime (Date 2024 1 1) 23 59 0 0),
                    row_at (datetime (Date 2024 1 1) 23 59 59 500000000),
                    row_at (datetime (Date 2024 1 2) 0 0 1 0)]\<rparr>)
     = [row_at (datetime (Date 2024 1 1) 23 59 0 0)] \<and>
   rows (filtered_df_nan crit_day
           \<lparr>columns = [],
            rows = [row_at (datetime (Date 2024 1 1) 23 59 0 0),
                    row_at (datetime (Date 2024 1 1) 23 59 59 500000000),
                    row_at (datetime (Date 2024 1 2) 0 0 1 0)]\<rparr>)
     = [row_at (datetime (Date 2024 1 1) 23 59 0 0)]"
  by (simp add: filtered_df_def filtered_df_nan_def row_mask_def row_mask_nan_def
      end_of_to_date_def crit_day_def row_at_def datetime_def day_2024_01_01 day_2024_01_02
      Timedelta_days_def Timedelta_seconds_def isin_def fillna_def)



subsection \<open>Score distribution\<close>











end
